theory Spec2Isabelle
  imports Complex_Main
begin

section \<open>Python numbers used by the renderer\<close>

text \<open>
  The renderer \<^verbatim>\<open>draw_creature\<close> of \<^verbatim>\<open>generate_creatures.py\<close> computes with
  Python integers (unbounded, modelled by \<^typ>\<open>int\<close>) and, in one place, with Python
  floats: the unique body colour is \<^verbatim>\<open>min(255, int(c * 0.7 + 80))\<close>.  A Python float is an
  IEEE 754 binary64 number, and every operation rounds its exact result to the nearest
  such number, ties to the even significand.  A finite float is modelled by a pair
  \<open>(m, e)\<close> of integers that stands for \<open>m \<sqdot> 2\<^sup>e\<close>; the exact result of an operation
  on such pairs is again such a pair, which \<open>round_double\<close> then brings back to 53
  significant bits.
\<close>

datatype error = OverflowError

type_synonym float = "int \<times> int"

function bit_length :: "int \<Rightarrow> int" where
  "bit_length n = (if n \<le> 0 then 0 else 1 + bit_length (n div 2))"
  by pat_completeness auto
termination
  by (relation "measure nat") auto

declare bit_length.simps [simp del]

text \<open>
  Division of \<open>m\<close> by \<open>2\<^sup>s\<close>, rounded to the nearest integer, ties to even:
  \<open>nearest_even q r d\<close> decides from the quotient \<open>q\<close>, twice the remainder \<open>r\<close>
  and the divisor \<open>d\<close>.
\<close>

definition nearest_even :: "int \<Rightarrow> int \<Rightarrow> int \<Rightarrow> int" where
  "nearest_even q r d =
     (if r < d then q else if d < r then q + 1 else if even q then q else q + 1)"

definition shift_round :: "int \<Rightarrow> nat \<Rightarrow> int" where
  "shift_round m s = nearest_even (m div 2 ^ s) (2 * (m mod 2 ^ s)) (2 ^ s)"

text \<open>
  Rounding to binary64 with the exponent range unbounded: a significand of more than 53
  bits loses its \<open>s\<close> lowest bits.  No operation of the renderer reaches the subnormal
  range; the one that can leave the finite range, the conversion of an integer, is
  checked in \<open>float_of_int\<close>.
\<close>

definition drop_bits :: "int \<Rightarrow> int \<Rightarrow> int \<Rightarrow> float" where
  "drop_bits s m e = (if s \<le> 0 then (m, e) else (shift_round m (nat s), e + s))"

definition round_double :: "float \<Rightarrow> float" where
  "round_double x = (case x of (m, e) \<Rightarrow> drop_bits (bit_length \<bar>m\<bar> - 53) m e)"

definition float_mul :: "float \<Rightarrow> float \<Rightarrow> float" where
  "float_mul x y = (case (x, y) of ((m, e), (n, f)) \<Rightarrow> round_double (m * n, e + f))"

definition float_add :: "float \<Rightarrow> float \<Rightarrow> float" where
  "float_add x y =
     (case (x, y) of ((m, e), (n, f)) \<Rightarrow>
        if e \<le> f then round_double (m + n * 2 ^ nat (f - e), e)
        else round_double (m * 2 ^ nat (e - f) + n, f))"

text \<open>
  \<^verbatim>\<open>float(c)\<close>, as applied implicitly to the integer operand of \<^verbatim>\<open>c * 0.7\<close> and of
  \<^verbatim>\<open>... + 80\<close>: an integer that rounds to \<open>2\<^sup>1\<^sup>0\<^sup>2\<^sup>4\<close> or more raises
  \<^verbatim>\<open>OverflowError\<close>.
\<close>

definition float_of_int :: "int \<Rightarrow> error + float" where
  "float_of_int c =
     (case round_double (c, 0) of (m, e) \<Rightarrow>
        if 2 ^ 1024 \<le> \<bar>m\<bar> * 2 ^ nat e then Inl OverflowError else Inr (m, e))"

text \<open>\<^verbatim>\<open>int(x)\<close> on a finite float: truncation towards zero.\<close>

definition int_of_float :: "float \<Rightarrow> int" where
  "int_of_float x =
     (case x of (m, e) \<Rightarrow>
        if 0 \<le> e then m * 2 ^ nat e
        else if 0 \<le> m then m div 2 ^ nat (- e)
        else - ((- m) div 2 ^ nat (- e)))"

text \<open>The literal \<^verbatim>\<open>0.7\<close>: the binary64 number nearest to \<open>7/10\<close>.\<close>

definition lit_0_7 :: float where
  "lit_0_7 = (6305039478318694, - 53)"

text \<open>
  One channel of line 59, \<^verbatim>\<open>min(255, int(c * 0.7 + 80))\<close>: first on the floats of \<open>c\<close>
  and \<open>80\<close>, then with the two conversions.
\<close>

definition brighten :: "float \<Rightarrow> float \<Rightarrow> int" where
  "brighten x y = min 255 (int_of_float (float_add (float_mul x lit_0_7) y))"

definition unique_channel :: "int \<Rightarrow> error + int" where
  "unique_channel c =
     (case float_of_int c of
        Inl err \<Rightarrow> Inl err
      | Inr x \<Rightarrow>
          (case float_of_int 80 of
             Inl err \<Rightarrow> Inl err
           | Inr y \<Rightarrow> Inr (brighten x y)))"

text \<open>
  The same channel as the specification words it, \<open>min(255, round(c*0.7+80))\<close>, over the
  rationals.
\<close>

definition spec_unique_channel :: "int \<Rightarrow> int" where
  "spec_unique_channel c = min 255 (round (rat_of_int c * 7 / 10 + 80))"

section \<open>Data: parameter records, colours and images\<close>

type_synonym rgb = "int \<times> int \<times> int"
type_synonym box = "int \<times> int \<times> int \<times> int"
type_synonym point = "int \<times> int"

text \<open>
  The parameter dictionary.  Every key may be missing (\<open>None\<close>), since the renderer reads
  each one with \<^verbatim>\<open>params.get(key, default)\<close>.  Fields are named after the dictionary keys.
\<close>

record params =
  p_color :: "rgb option"
  p_tail :: "string option"
  p_horns :: "bool option"
  p_horns_color :: "rgb option"
  p_spines :: "int option"
  p_crest :: "bool option"
  p_spots :: "bool option"
  p_fins :: "bool option"
  p_allow_crest_unique :: "bool option"

text \<open>The local variables of \<^verbatim>\<open>draw_creature\<close> after lines 47 to 64.\<close>

record traits =
  colour :: rgb
  tail_shape :: string
  horns :: bool
  horns_colour :: "rgb option"
  spines :: int
  crest :: bool
  spots :: bool
  fins :: bool

text \<open>
  The image is what Pillow is asked to produce: the arguments of \<^verbatim>\<open>Image.new\<close> and the
  drawing calls made on it, in order.  Pillow is not part of the repository, so what it
  does with a call is not modelled.
\<close>

datatype draw_op =
    Ellipse box rgb
  | Rectangle box rgb
  | Polygon "point list" rgb
  | Line "point list" rgb int

record image =
  img_mode :: string
  img_size :: "int \<times> int"
  img_background :: "int \<times> int \<times> int \<times> int"
  img_ops :: "draw_op list"


fun is_polygon :: "draw_op \<Rightarrow> bool" where
  "is_polygon (Polygon ps c) = True"
| "is_polygon other = False"

section \<open>The renderer\<close>

text \<open>\<^verbatim>\<open>params.get(key, default)\<close>\<close>

definition dict_get :: "'a option \<Rightarrow> 'a \<Rightarrow> 'a" where
  "dict_get v d = (case v of None \<Rightarrow> d | Some x \<Rightarrow> x)"

text \<open>Lines 47 to 54.\<close>

definition extract_parameters :: "params \<Rightarrow> traits" where
  "extract_parameters params =
     \<lparr>colour = dict_get (p_color params) (120, 200, 120),
      tail_shape = dict_get (p_tail params) ''normal'',
      horns = dict_get (p_horns params) False,
      horns_colour = p_horns_color params,
      spines = dict_get (p_spines params) 0,
      crest = dict_get (p_crest params) False,
      spots = dict_get (p_spots params) False,
      fins = dict_get (p_fins params) False\<rparr>"

text \<open>\<^verbatim>\<open>tuple(f(c) for c in colour)\<close>\<close>

definition map_rgb :: "(int \<Rightarrow> int) \<Rightarrow> rgb \<Rightarrow> rgb" where
  "map_rgb f col = (case col of (r, g, b) \<Rightarrow> (f r, f g, f b))"

text \<open>Line 59; the channels are computed left to right and the first error ends it.\<close>

definition unique_colour :: "rgb \<Rightarrow> error + rgb" where
  "unique_colour col =
     (case col of (r, g, b) \<Rightarrow>
        (case unique_channel r of
           Inl err \<Rightarrow> Inl err
         | Inr r' \<Rightarrow>
             (case unique_channel g of
                Inl err \<Rightarrow> Inl err
              | Inr g' \<Rightarrow>
                  (case unique_channel b of
                     Inl err \<Rightarrow> Inl err
                   | Inr b' \<Rightarrow> Inr (r', g', b')))))"

text \<open>Lines 57 to 64, the body of \<^verbatim>\<open>if unique:\<close>.\<close>

definition unique_adjust :: "params \<Rightarrow> traits \<Rightarrow> error + traits" where
  "unique_adjust params t =
     (case unique_colour (colour t) of
        Inl err \<Rightarrow> Inl err
      | Inr col \<Rightarrow>
          Inr (t\<lparr>colour := col,
                 horns := \<not> horns t,
                 spines := (spines t + 2) mod 5,
                 crest := (if dict_get (p_allow_crest_unique params) True
                           then \<not> crest t else crest t),
                 spots := \<not> spots t,
                 fins := \<not> fins t\<rparr>))"

text \<open>The local variables with which the drawing starts at line 66.\<close>

definition effective :: "params \<Rightarrow> bool \<Rightarrow> error + traits" where
  "effective params unique =
     (if unique then unique_adjust params (extract_parameters params) else Inr (extract_parameters params))"

text \<open>\<^verbatim>\<open>range(n)\<close>\<close>

definition py_range :: "int \<Rightarrow> int list" where
  "py_range n = [0..n - 1]"

text \<open>Lines 66 to 77: body, head and the two legs.\<close>

definition body_ops :: "rgb \<Rightarrow> draw_op list" where
  "body_ops col =
     [Ellipse (20, 40, 80, 90) col,
      Ellipse (40, 20, 80, 60) col,
      Rectangle (30, 80, 40, 95) col,
      Rectangle (55, 80, 65, 95) col]"

text \<open>Lines 80 to 94.\<close>

definition tail_ops :: "string \<Rightarrow> rgb \<Rightarrow> draw_op list" where
  "tail_ops shape col =
     (if shape = ''leaf'' then
        [Polygon [(20, 70), (10, 50), (20, 55), (15, 65)] col,
         Line [(15, 55), (15, 65)] (0, 100, 0) 1]
      else if shape = ''long'' then
        [Polygon [(20, 75), (5, 65), (20, 55)] col]
      else if shape = ''fin'' then
        [Polygon [(20, 70), (5, 60), (20, 50)] col,
         Line [(12, 58), (12, 65)] (0, 150, 200) 1]
      else
        [Polygon [(20, 70), (10, 65), (20, 60)] col])"

text \<open>
  Lines 97 to 100.  In \<^verbatim>\<open>horns_colour or ...\<close> a colour triple is always true, so only
  \<^verbatim>\<open>None\<close> selects the derived colour.
\<close>

definition horn_ops :: "traits \<Rightarrow> draw_op list" where
  "horn_ops t =
     (if horns t then
        (let hc = (case horns_colour t of
                     Some h \<Rightarrow> h
                   | None \<Rightarrow> map_rgb (\<lambda>c. min 255 (c + 40)) (colour t))
         in [Polygon [(50, 12), (54, 25), (46, 25)] hc,
             Polygon [(60, 12), (64, 25), (56, 25)] hc])
      else [])"

text \<open>Lines 103 to 106.\<close>

definition spine_op :: "rgb \<Rightarrow> int \<Rightarrow> draw_op" where
  "spine_op col i =
     (let x = 30 + i * 10
      in Polygon [(x, 38 - i * 2), (x + 5, 28 - i * 2), (x + 10, 38 - i * 2)]
           (map_rgb (\<lambda>c. max 0 (c - 30)) col))"

definition spine_ops :: "traits \<Rightarrow> draw_op list" where
  "spine_ops t = map (spine_op (colour t)) (py_range (spines t))"

text \<open>
  Lines 109 to 116.  The petal offsets \<^verbatim>\<open>int(12 * math.cos(angle))\<close> and
  \<^verbatim>\<open>int(12 * math.sin(angle))\<close> for \<^verbatim>\<open>angle = math.radians(i * 60)\<close> come from the C
  library; \<open>petal i\<close> stands for the pair \<open>(dx, dy)\<close> they give at \<open>i\<close>.
\<close>

definition crest_op :: "(int \<Rightarrow> int \<times> int) \<Rightarrow> bool \<Rightarrow> int \<Rightarrow> draw_op" where
  "crest_op petal unique i =
     (case petal i of (dx, dy) \<Rightarrow>
        (let cx = 60; cy = 40;
             petal_col = (if \<not> unique then (255, 200, 0) else (255, 0, 200))
         in Ellipse (cx + dx - 4, cy + dy - 4, cx + dx + 4, cy + dy + 4) petal_col))"

definition crest_ops :: "(int \<Rightarrow> int \<times> int) \<Rightarrow> traits \<Rightarrow> bool \<Rightarrow> draw_op list" where
  "crest_ops petal t unique =
     (if crest t then map (crest_op petal unique) (py_range 6) else [])"

text \<open>
  Lines 119 to 125.  \<^verbatim>\<open>random.randint\<close> reads and advances the generator of the
  \<^verbatim>\<open>random\<close> module; \<open>randint g a b\<close> stands for one call in generator state \<open>g\<close> and
  gives the number drawn and the next state.
\<close>

definition spot_op :: "rgb \<Rightarrow> int \<times> int \<Rightarrow> draw_op" where
  "spot_op col p =
     (case p of (sx, sy) \<Rightarrow>
        Ellipse (sx - 2, sy - 2, sx + 2, sy + 2) (map_rgb (\<lambda>c. max 0 (c - 40)) col))"

fun spot_loop ::
  "('g \<Rightarrow> int \<Rightarrow> int \<Rightarrow> int \<times> 'g) \<Rightarrow> rgb \<Rightarrow> int list \<Rightarrow> 'g \<Rightarrow> draw_op list \<times> 'g" where
  "spot_loop randint col [] g = ([], g)"
| "spot_loop randint col (i # rest) g =
     (case randint g 30 70 of (sx, g1) \<Rightarrow>
        (case randint g1 50 85 of (sy, g2) \<Rightarrow>
           (case spot_loop randint col rest g2 of (ops, g3) \<Rightarrow>
              (spot_op col (sx, sy) # ops, g3))))"

definition spot_ops ::
  "('g \<Rightarrow> int \<Rightarrow> int \<Rightarrow> int \<times> 'g) \<Rightarrow> traits \<Rightarrow> 'g \<Rightarrow> draw_op list \<times> 'g" where
  "spot_ops randint t g =
     (if spots t then spot_loop randint (colour t) (py_range 6) g else ([], g))"

text \<open>Lines 128 to 133.\<close>

definition fin_op :: "rgb \<Rightarrow> int \<Rightarrow> draw_op" where
  "fin_op fin_col i =
     (let fx = 35 + i * 15
      in Polygon [(fx, 35 - i * 3), (fx + 7, 25 - i * 3), (fx + 14, 35 - i * 3)] fin_col)"

definition fin_ops :: "traits \<Rightarrow> draw_op list" where
  "fin_ops t =
     (if fins t then
        (let fin_col = map_rgb (\<lambda>c. min 255 (c + 60)) (colour t)
         in map (fin_op fin_col) (py_range 3))
      else [])"

text \<open>Lines 136 to 142.\<close>

definition eye_ops :: "draw_op list" where
  "eye_ops =
     (let eye_x = 63; eye_y = 33
      in [Ellipse (eye_x - 10, eye_y - 5, eye_x - 4, eye_y + 1) (255, 255, 255),
          Ellipse (eye_x - 8, eye_y - 3, eye_x - 6, eye_y - 1) (0, 0, 0),
          Ellipse (eye_x - 24, eye_y - 5, eye_x - 18, eye_y + 1) (255, 255, 255),
          Ellipse (eye_x - 22, eye_y - 3, eye_x - 20, eye_y - 1) (0, 0, 0)])"

text \<open>Lines 42 to 44 and 66 to 144: the drawing, from the local variables on.\<close>

definition render ::
  "(int \<Rightarrow> int \<times> int) \<Rightarrow> ('g \<Rightarrow> int \<Rightarrow> int \<Rightarrow> int \<times> 'g) \<Rightarrow> traits \<Rightarrow> bool \<Rightarrow> 'g
     \<Rightarrow> image \<times> 'g" where
  "render petal randint t unique g =
     (case spot_ops randint t g of (sp, g') \<Rightarrow>
        (\<lparr>img_mode = ''RGBA'',
          img_size = (100, 100),
          img_background = (0, 0, 0, 0),
          img_ops = body_ops (colour t) @ tail_ops (tail_shape t) (colour t) @ horn_ops t
                    @ spine_ops t @ crest_ops petal t unique @ sp @ fin_ops t @ eye_ops\<rparr>,
         g'))"

definition draw_creature ::
  "(int \<Rightarrow> int \<times> int) \<Rightarrow> ('g \<Rightarrow> int \<Rightarrow> int \<Rightarrow> int \<times> 'g) \<Rightarrow> params \<Rightarrow> bool \<Rightarrow> 'g
     \<Rightarrow> error + image \<times> 'g" where
  "draw_creature petal randint params unique g =
     (case effective params unique of
        Inl err \<Rightarrow> Inl err
      | Inr t \<Rightarrow> Inr (render petal randint t unique g))"

text \<open>
  Stand-ins for the two library parameters, to run the renderer on concrete inputs: the
  petal offsets are the truncations of the exact values of \<open>12 cos (60\<degree> i)\<close> and
  \<open>12 sin (60\<degree> i)\<close>, and the generator is a counter.  The C library may give
  an offset one nearer to zero where the exact value is an integer.  The theorems hold
  for every choice of the two parameters; only the examples use these.
\<close>

definition sample_petal :: "int \<Rightarrow> int \<times> int" where
  "sample_petal i =
     (if i = 0 then (12, 0) else if i = 1 then (6, 10) else if i = 2 then (- 6, 10)
      else if i = 3 then (- 12, 0) else if i = 4 then (- 6, - 10) else (6, - 10))"

definition sample_randint :: "nat \<Rightarrow> int \<Rightarrow> int \<Rightarrow> int \<times> nat" where
  "sample_randint g a b = (a + int g mod (b - a + 1), Suc g)"

section \<open>The catalogue and the driver\<close>

definition CREATURES :: "(string \<times> params) list" where
  "CREATURES =
     [(''verdant_leaflon'',
        \<lparr>p_color = Some (76, 174, 79), p_tail = Some ''leaf'', p_horns = Some False, p_horns_color = None,
         p_spines = Some 1, p_crest = Some False, p_spots = Some False, p_fins = Some False,
         p_allow_crest_unique = None\<rparr>),
      (''verdant_barkhorn'',
        \<lparr>p_color = Some (143, 92, 49), p_tail = Some ''normal'', p_horns = Some True, p_horns_color = Some (189, 135, 70),
         p_spines = Some 0, p_crest = Some False, p_spots = Some False, p_fins = Some False,
         p_allow_crest_unique = None\<rparr>),
      (''verdant_dewhopper'',
        \<lparr>p_color = Some (119, 178, 187), p_tail = Some ''long'', p_horns = Some False, p_horns_color = None,
         p_spines = Some 0, p_crest = Some False, p_spots = Some True, p_fins = Some True,
         p_allow_crest_unique = None\<rparr>),
      (''verdant_suncollar'',
        \<lparr>p_color = Some (208, 131, 45), p_tail = Some ''normal'', p_horns = Some False, p_horns_color = None,
         p_spines = Some 0, p_crest = Some True, p_spots = Some False, p_fins = Some False,
         p_allow_crest_unique = Some False\<rparr>),
      (''verdant_sproutling'',
        \<lparr>p_color = Some (102, 185, 90), p_tail = Some ''leaf'', p_horns = Some False, p_horns_color = None,
         p_spines = Some 2, p_crest = Some False, p_spots = Some False, p_fins = Some False,
         p_allow_crest_unique = None\<rparr>),
      (''verdant_gloomdrake'',
        \<lparr>p_color = Some (91, 64, 115), p_tail = Some ''long'', p_horns = Some True, p_horns_color = Some (111, 84, 135),
         p_spines = Some 3, p_crest = Some False, p_spots = Some False, p_fins = Some False,
         p_allow_crest_unique = None\<rparr>),
      (''verdant_shadowpouncer'',
        \<lparr>p_color = Some (60, 60, 70), p_tail = Some ''long'', p_horns = Some False, p_horns_color = None,
         p_spines = Some 2, p_crest = Some False, p_spots = Some False, p_fins = Some False,
         p_allow_crest_unique = None\<rparr>),
      (''verdant_moonfen'',
        \<lparr>p_color = Some (75, 123, 199), p_tail = Some ''fin'', p_horns = Some False, p_horns_color = None,
         p_spines = Some 0, p_crest = Some False, p_spots = Some True, p_fins = Some True,
         p_allow_crest_unique = None\<rparr>),
      (''verdant_shadehopper'',
        \<lparr>p_color = Some (63, 97, 56), p_tail = Some ''long'', p_horns = Some False, p_horns_color = None,
         p_spines = Some 0, p_crest = Some False, p_spots = Some True, p_fins = Some False,
         p_allow_crest_unique = None\<rparr>),
      (''verdant_starbit'',
        \<lparr>p_color = Some (223, 210, 60), p_tail = Some ''fin'', p_horns = Some False, p_horns_color = None,
         p_spines = Some 1, p_crest = Some False, p_spots = Some False, p_fins = Some True,
         p_allow_crest_unique = None\<rparr>),
      (''desert_sunscale'',
        \<lparr>p_color = Some (230, 170, 69), p_tail = Some ''normal'', p_horns = Some True, p_horns_color = Some (255, 213, 96),
         p_spines = Some 3, p_crest = Some False, p_spots = Some False, p_fins = Some False,
         p_allow_crest_unique = None\<rparr>),
      (''desert_sandrunner'',
        \<lparr>p_color = Some (199, 148, 80), p_tail = Some ''long'', p_horns = Some False, p_horns_color = None,
         p_spines = Some 1, p_crest = Some False, p_spots = Some False, p_fins = Some False,
         p_allow_crest_unique = None\<rparr>),
      (''desert_cactusaur'',
        \<lparr>p_color = Some (187, 167, 57), p_tail = Some ''leaf'', p_horns = Some True, p_horns_color = Some (204, 190, 92),
         p_spines = Some 2, p_crest = Some False, p_spots = Some False, p_fins = Some False,
         p_allow_crest_unique = None\<rparr>),
      (''desert_mirageback'',
        \<lparr>p_color = Some (207, 152, 97), p_tail = Some ''long'', p_horns = Some False, p_horns_color = None,
         p_spines = Some 0, p_crest = Some True, p_spots = Some False, p_fins = Some False,
         p_allow_crest_unique = None\<rparr>),
      (''desert_dustwing'',
        \<lparr>p_color = Some (215, 180, 100), p_tail = Some ''fin'', p_horns = Some False, p_horns_color = None,
         p_spines = Some 0, p_crest = Some False, p_spots = Some False, p_fins = Some True,
         p_allow_crest_unique = None\<rparr>),
      (''desert_dunehowl'',
        \<lparr>p_color = Some (120, 85, 60), p_tail = Some ''long'', p_horns = Some True, p_horns_color = Some (145, 105, 75),
         p_spines = Some 1, p_crest = Some False, p_spots = Some False, p_fins = Some False,
         p_allow_crest_unique = None\<rparr>),
      (''desert_nightcrawler'',
        \<lparr>p_color = Some (85, 74, 65), p_tail = Some ''long'', p_horns = Some False, p_horns_color = None,
         p_spines = Some 3, p_crest = Some False, p_spots = Some False, p_fins = Some False,
         p_allow_crest_unique = None\<rparr>),
      (''desert_mirageglider'',
        \<lparr>p_color = Some (139, 116, 102), p_tail = Some ''fin'', p_horns = Some True, p_horns_color = Some (169, 146, 132),
         p_spines = Some 0, p_crest = Some False, p_spots = Some False, p_fins = Some True,
         p_allow_crest_unique = None\<rparr>),
      (''desert_sandshiver'',
        \<lparr>p_color = Some (155, 121, 93), p_tail = Some ''long'', p_horns = Some False, p_horns_color = None,
         p_spines = Some 4, p_crest = Some False, p_spots = Some False, p_fins = Some False,
         p_allow_crest_unique = None\<rparr>),
      (''desert_aridclaw'',
        \<lparr>p_color = Some (133, 109, 90), p_tail = Some ''normal'', p_horns = Some True, p_horns_color = Some (163, 139, 120),
         p_spines = Some 1, p_crest = Some False, p_spots = Some False, p_fins = Some False,
         p_allow_crest_unique = None\<rparr>),
      (''ocean_seapup'',
        \<lparr>p_color = Some (79, 169, 222), p_tail = Some ''fin'', p_horns = Some False, p_horns_color = None,
         p_spines = Some 0, p_crest = Some False, p_spots = Some False, p_fins = Some True,
         p_allow_crest_unique = None\<rparr>),
      (''ocean_coralhorn'',
        \<lparr>p_color = Some (85, 131, 191), p_tail = Some ''normal'', p_horns = Some True, p_horns_color = Some (170, 198, 240),
         p_spines = Some 2, p_crest = Some False, p_spots = Some False, p_fins = Some False,
         p_allow_crest_unique = None\<rparr>),
      (''ocean_tideback'',
        \<lparr>p_color = Some (92, 183, 201), p_tail = Some ''fin'', p_horns = Some False, p_horns_color = None,
         p_spines = Some 0, p_crest = Some False, p_spots = Some False, p_fins = Some True,
         p_allow_crest_unique = None\<rparr>),
      (''ocean_splashfin'',
        \<lparr>p_color = Some (104, 167, 216), p_tail = Some ''fin'', p_horns = Some False, p_horns_color = None,
         p_spines = Some 1, p_crest = Some False, p_spots = Some False, p_fins = Some True,
         p_allow_crest_unique = None\<rparr>),
      (''ocean_wavefoot'',
        \<lparr>p_color = Some (66, 138, 190), p_tail = Some ''fin'', p_horns = Some False, p_horns_color = None,
         p_spines = Some 0, p_crest = Some False, p_spots = Some True, p_fins = Some True,
         p_allow_crest_unique = None\<rparr>),
      (''ocean_deepglow'',
        \<lparr>p_color = Some (40, 85, 138), p_tail = Some ''fin'', p_horns = Some False, p_horns_color = None,
         p_spines = Some 0, p_crest = Some False, p_spots = Some True, p_fins = Some True,
         p_allow_crest_unique = None\<rparr>),
      (''ocean_moonray'',
        \<lparr>p_color = Some (58, 104, 161), p_tail = Some ''fin'', p_horns = Some False, p_horns_color = None,
         p_spines = Some 1, p_crest = Some False, p_spots = Some True, p_fins = Some True,
         p_allow_crest_unique = None\<rparr>),
      (''ocean_abyssclaw'',
        \<lparr>p_color = Some (50, 84, 123), p_tail = Some ''normal'', p_horns = Some True, p_horns_color = Some (80, 114, 153),
         p_spines = Some 2, p_crest = Some False, p_spots = Some False, p_fins = Some False,
         p_allow_crest_unique = None\<rparr>),
      (''ocean_mistwing'',
        \<lparr>p_color = Some (76, 121, 182), p_tail = Some ''fin'', p_horns = Some False, p_horns_color = None,
         p_spines = Some 0, p_crest = Some False, p_spots = Some False, p_fins = Some True,
         p_allow_crest_unique = None\<rparr>),
      (''ocean_whirlpooler'',
        \<lparr>p_color = Some (60, 94, 140), p_tail = Some ''fin'', p_horns = Some False, p_horns_color = None,
         p_spines = Some 3, p_crest = Some False, p_spots = Some False, p_fins = Some True,
         p_allow_crest_unique = None\<rparr>),
      (''mountain_iceback'',
        \<lparr>p_color = Some (146, 202, 221), p_tail = Some ''normal'', p_horns = Some True, p_horns_color = Some (176, 232, 251),
         p_spines = Some 3, p_crest = Some False, p_spots = Some False, p_fins = Some False,
         p_allow_crest_unique = None\<rparr>),
      (''mountain_snowtail'',
        \<lparr>p_color = Some (192, 223, 233), p_tail = Some ''long'', p_horns = Some False, p_horns_color = None,
         p_spines = Some 1, p_crest = Some False, p_spots = Some False, p_fins = Some False,
         p_allow_crest_unique = None\<rparr>),
      (''mountain_frosthorn'',
        \<lparr>p_color = Some (163, 198, 222), p_tail = Some ''normal'', p_horns = Some True, p_horns_color = Some (213, 243, 255),
         p_spines = Some 1, p_crest = Some False, p_spots = Some False, p_fins = Some False,
         p_allow_crest_unique = None\<rparr>),
      (''mountain_glacierpaw'',
        \<lparr>p_color = Some (179, 210, 220), p_tail = Some ''normal'', p_horns = Some False, p_horns_color = None,
         p_spines = Some 0, p_crest = Some True, p_spots = Some False, p_fins = Some False,
         p_allow_crest_unique = None\<rparr>),
      (''mountain_chilldrake'',
        \<lparr>p_color = Some (134, 187, 210), p_tail = Some ''long'', p_horns = Some True, p_horns_color = Some (164, 217, 240),
         p_spines = Some 2, p_crest = Some False, p_spots = Some False, p_fins = Some False,
         p_allow_crest_unique = None\<rparr>),
      (''mountain_iciclex'',
        \<lparr>p_color = Some (103, 143, 170), p_tail = Some ''long'', p_horns = Some False, p_horns_color = None,
         p_spines = Some 3, p_crest = Some False, p_spots = Some False, p_fins = Some False,
         p_allow_crest_unique = None\<rparr>),
      (''mountain_nightfrost'',
        \<lparr>p_color = Some (90, 122, 149), p_tail = Some ''long'', p_horns = Some True, p_horns_color = Some (120, 152, 179),
         p_spines = Some 2, p_crest = Some False, p_spots = Some False, p_fins = Some False,
         p_allow_crest_unique = None\<rparr>),
      (''mountain_winterstalk'',
        \<lparr>p_color = Some (113, 153, 180), p_tail = Some ''normal'', p_horns = Some False, p_horns_color = None,
         p_spines = Some 4, p_crest = Some False, p_spots = Some False, p_fins = Some False,
         p_allow_crest_unique = None\<rparr>),
      (''mountain_snowmantle'',
        \<lparr>p_color = Some (167, 214, 236), p_tail = Some ''normal'', p_horns = Some False, p_horns_color = None,
         p_spines = Some 1, p_crest = Some True, p_spots = Some False, p_fins = Some False,
         p_allow_crest_unique = None\<rparr>),
      (''mountain_iceblink'',
        \<lparr>p_color = Some (120, 164, 198), p_tail = Some ''fin'', p_horns = Some True, p_horns_color = Some (150, 194, 228),
         p_spines = Some 2, p_crest = Some False, p_spots = Some False, p_fins = Some True,
         p_allow_crest_unique = None\<rparr>),
      (''swamp_mudfin'',
        \<lparr>p_color = Some (102, 125, 77), p_tail = Some ''fin'', p_horns = Some False, p_horns_color = None,
         p_spines = Some 0, p_crest = Some False, p_spots = Some True, p_fins = Some True,
         p_allow_crest_unique = None\<rparr>),
      (''swamp_bogmaw'',
        \<lparr>p_color = Some (89, 113, 65), p_tail = Some ''long'', p_horns = Some True, p_horns_color = Some (119, 143, 95),
         p_spines = Some 2, p_crest = Some False, p_spots = Some False, p_fins = Some False,
         p_allow_crest_unique = None\<rparr>),
      (''swamp_marshclaw'',
        \<lparr>p_color = Some (79, 103, 61), p_tail = Some ''long'', p_horns = Some False, p_horns_color = None,
         p_spines = Some 3, p_crest = Some False, p_spots = Some False, p_fins = Some False,
         p_allow_crest_unique = None\<rparr>),
      (''swamp_fenrunner'',
        \<lparr>p_color = Some (96, 129, 82), p_tail = Some ''long'', p_horns = Some False, p_horns_color = None,
         p_spines = Some 1, p_crest = Some False, p_spots = Some False, p_fins = Some False,
         p_allow_crest_unique = None\<rparr>),
      (''swamp_vinecrest'',
        \<lparr>p_color = Some (83, 116, 70), p_tail = Some ''leaf'', p_horns = Some False, p_horns_color = None,
         p_spines = Some 0, p_crest = Some True, p_spots = Some False, p_fins = Some False,
         p_allow_crest_unique = None\<rparr>),
      (''swamp_mireglow'',
        \<lparr>p_color = Some (70, 96, 58), p_tail = Some ''fin'', p_horns = Some False, p_horns_color = None,
         p_spines = Some 0, p_crest = Some False, p_spots = Some True, p_fins = Some True,
         p_allow_crest_unique = None\<rparr>),
      (''swamp_sludgeback'',
        \<lparr>p_color = Some (60, 80, 50), p_tail = Some ''long'', p_horns = Some True, p_horns_color = Some (90, 110, 70),
         p_spines = Some 2, p_crest = Some False, p_spots = Some False, p_fins = Some False,
         p_allow_crest_unique = None\<rparr>),
      (''swamp_fogwhisp'',
        \<lparr>p_color = Some (72, 98, 64), p_tail = Some ''fin'', p_horns = Some False, p_horns_color = None,
         p_spines = Some 1, p_crest = Some False, p_spots = Some True, p_fins = Some True,
         p_allow_crest_unique = None\<rparr>),
      (''swamp_croakshade'',
        \<lparr>p_color = Some (68, 92, 58), p_tail = Some ''long'', p_horns = Some False, p_horns_color = None,
         p_spines = Some 2, p_crest = Some False, p_spots = Some False, p_fins = Some False,
         p_allow_crest_unique = None\<rparr>),
      (''swamp_nightvine'',
        \<lparr>p_color = Some (65, 90, 55), p_tail = Some ''leaf'', p_horns = Some True, p_horns_color = Some (95, 120, 85),
         p_spines = Some 1, p_crest = Some False, p_spots = Some False, p_fins = Some False,
         p_allow_crest_unique = None\<rparr>)]"

text \<open>\<^verbatim>\<open>os.path.join\<close> for two components (POSIX).\<close>

definition path_join :: "string \<Rightarrow> string \<Rightarrow> string" where
  "path_join a b =
     (if b \<noteq> [] \<and> hd b = CHR ''/'' then b
      else if a = [] \<or> last a = CHR ''/'' then a @ b
      else a @ ''/'' @ b)"

text \<open>
  Lines 26 to 29.  \<open>base_dir\<close> is the directory of the script,
  \<^verbatim>\<open>os.path.dirname(os.path.abspath(__file__))\<close>.
\<close>

definition ASSETS_DIR :: "string \<Rightarrow> string" where
  "ASSETS_DIR base_dir = path_join (path_join base_dir ''assets'') ''creatures''"

definition BASE_OUTPUT :: "string \<Rightarrow> string" where
  "BASE_OUTPUT base_dir = path_join (ASSETS_DIR base_dir) ''base''"

definition UNIQUE_OUTPUT :: "string \<Rightarrow> string" where
  "UNIQUE_OUTPUT base_dir = path_join (ASSETS_DIR base_dir) ''unique''"

text \<open>Lines 219 and 220: the two paths of an entry.\<close>

definition base_path :: "string \<Rightarrow> string \<Rightarrow> string" where
  "base_path base_dir name = path_join (BASE_OUTPUT base_dir) (name @ ''_base.png'')"

definition unique_path :: "string \<Rightarrow> string \<Rightarrow> string" where
  "unique_path base_dir name = path_join (UNIQUE_OUTPUT base_dir) (name @ ''_unique.png'')"

text \<open>
  What the driver changes: the files it saves (path to image), the lines it prints and
  the state of the random generator.  Saving is taken to succeed.
\<close>

record 'g world =
  files :: "string \<rightharpoonup> image"
  stdout :: "string list"
  rng :: 'g

text \<open>Lines 216 to 223, over the entries still to do.\<close>

fun generate_loop ::
  "(int \<Rightarrow> int \<times> int) \<Rightarrow> ('g \<Rightarrow> int \<Rightarrow> int \<Rightarrow> int \<times> 'g) \<Rightarrow> string
     \<Rightarrow> (string \<times> params) list \<Rightarrow> 'g world \<Rightarrow> error + 'g world" where
  "generate_loop petal randint base_dir [] w = Inr w"
| "generate_loop petal randint base_dir ((name, params) # rest) w =
     (case draw_creature petal randint params False (rng w) of
        Inl err \<Rightarrow> Inl err
      | Inr (base_img, g1) \<Rightarrow>
          (case draw_creature petal randint params True g1 of
             Inl err \<Rightarrow> Inl err
           | Inr (unique_img, g2) \<Rightarrow>
               generate_loop petal randint base_dir rest
                 (w\<lparr>files := (files w)(base_path base_dir name \<mapsto> base_img,
                                       unique_path base_dir name \<mapsto> unique_img),
                    stdout := stdout w
                      @ [''Generated '' @ base_path base_dir name @ '' and unique variant''],
                    rng := g2\<rparr>)))"

definition generate_all ::
  "(int \<Rightarrow> int \<times> int) \<Rightarrow> ('g \<Rightarrow> int \<Rightarrow> int \<Rightarrow> int \<times> 'g) \<Rightarrow> string \<Rightarrow> 'g world
     \<Rightarrow> error + 'g world" where
  "generate_all petal randint base_dir w = generate_loop petal randint base_dir CREATURES w"

text \<open>A colour whose channels are all in \<open>[0,255]\<close>.\<close>

definition rgb_in_range :: "rgb \<Rightarrow> bool" where
  "rgb_in_range col =
     (case col of (r, g, b) \<Rightarrow>
        0 \<le> r \<and> r \<le> 255 \<and> 0 \<le> g \<and> g \<le> 255 \<and> 0 \<le> b \<and> b \<le> 255)"

section \<open>Facts about the float model\<close>

lemma bit_length_numeral:
  "bit_length 0 = 0"
  "bit_length 1 = 1"
  "bit_length (numeral (Num.Bit0 n)) = 1 + bit_length (numeral n)"
  "bit_length (numeral (Num.Bit1 n)) = 1 + bit_length (numeral n)"
  "bit_length (- numeral n) = 0"
  by (subst bit_length.simps, simp)+

lemma bit_length_le: "n < 2 ^ k \<Longrightarrow> bit_length n \<le> int k"
proof (induction k arbitrary: n)
  case 0
  then show ?case by (subst bit_length.simps) simp
next
  case (Suc k)
  show ?case
  proof (cases "n \<le> 0")
    case True
    then show ?thesis by (subst bit_length.simps) simp
  next
    case False
    from Suc.prems have "n div 2 < 2 ^ k" by simp
    then have "bit_length (n div 2) \<le> int k" by (rule Suc.IH)
    with False show ?thesis by (subst bit_length.simps) simp
  qed
qed

text \<open>\<open>shift_round\<close> gives a multiple of \<open>2\<^sup>s\<close> nearest to \<open>m\<close>.\<close>

lemma shift_round_nearest: "2 * \<bar>shift_round m s * 2 ^ s - m\<bar> \<le> 2 ^ s"
proof -
  define d :: int where "d = 2 ^ s"
  define q where "q = m div d"
  define r where "r = m mod d"
  have d: "0 < d" by (simp add: d_def)
  have m: "m = q * d + r" by (simp add: q_def r_def)
  have r: "0 \<le> r" "r < d" using d by (simp_all add: r_def)
  have a: "\<bar>q * d - m\<bar> = r" using m r by simp
  have b: "\<bar>(q + 1) * d - m\<bar> = d - r" using m r by (simp add: algebra_simps)
  have "shift_round m s = nearest_even q (2 * r) d"
    by (simp add: shift_round_def q_def r_def d_def)
  then have "2 * \<bar>shift_round m s * d - m\<bar> \<le> d"
    using a b r by (auto simp add: nearest_even_def)
  then show ?thesis by (simp add: d_def)
qed

text \<open>An integer below \<open>2\<^sup>5\<^sup>3\<close> in magnitude is a float as it stands.\<close>

lemma float_of_int_small: "\<bar>c\<bar> < 2 ^ 53 \<Longrightarrow> float_of_int c = Inr (c, 0)"
proof -
  assume a: "\<bar>c\<bar> < 2 ^ 53"
  then have "bit_length \<bar>c\<bar> \<le> 53" using bit_length_le [of "\<bar>c\<bar>" 53] by simp
  then have r: "round_double (c, 0) = (c, 0)" by (simp add: round_double_def drop_bits_def)
  have "\<bar>c\<bar> < (2::int) ^ 1024" using a by (rule less_trans) simp
  then show ?thesis by (simp add: float_of_int_def r)
qed

lemma unique_channel_small:
  "\<bar>c\<bar> < 2 ^ 53 \<Longrightarrow> unique_channel c = Inr (brighten (c, 0) (80, 0))"
  using float_of_int_small [of c] float_of_int_small [of 80]
  by (simp add: unique_channel_def)

text \<open>The error of line 59 is real: \<^verbatim>\<open>2 ** 1024 * 0.7\<close> raises.\<close>

lemma unique_channel_overflow: "unique_channel (2 ^ 1024) = Inl OverflowError"
  by (simp add: unique_channel_def float_of_int_def round_double_def drop_bits_def
      shift_round_def nearest_even_def bit_length_numeral)

text \<open>The literal is the nearest float: \<open>7/10\<close> lies within half a unit of its last place.\<close>

lemma lit_0_7_nearest:
  "lit_0_7 = (m, e) \<Longrightarrow>
     2 ^ 52 \<le> m \<and> m < 2 ^ 53 \<and> e = - 53 \<and> \<bar>7 * 2 ^ 53 - 10 * m\<bar> \<le> 5"
  by (auto simp add: lit_0_7_def)

lemmas float_eval = brighten_def int_of_float_def round_double_def drop_bits_def
  shift_round_def nearest_even_def float_mul_def float_add_def lit_0_7_def bit_length_numeral

text \<open>All 256 channel values, evaluated in four runs.\<close>

lemma brighten_0_63:
  "\<forall>c \<in> set [0..63]. brighten (c, 0) (80, 0) = min 255 ((7 * c + 800) div 10)"
  apply (simp add: upto.simps)
  apply (simp add: float_eval)
  done

lemma brighten_64_127:
  "\<forall>c \<in> set [64..127]. brighten (c, 0) (80, 0) = min 255 ((7 * c + 800) div 10)"
  apply (simp add: upto.simps)
  apply (simp add: float_eval)
  done

lemma brighten_128_191:
  "\<forall>c \<in> set [128..191]. brighten (c, 0) (80, 0) = min 255 ((7 * c + 800) div 10)"
  apply (simp add: upto.simps)
  apply (simp add: float_eval)
  done

lemma brighten_192_255:
  "\<forall>c \<in> set [192..255]. brighten (c, 0) (80, 0) = min 255 ((7 * c + 800) div 10)"
  apply (simp add: upto.simps)
  apply (simp add: float_eval)
  done

lemma unique_channel_closed:
  assumes "0 \<le> c" "c \<le> 255"
  shows "unique_channel c = Inr (min 255 ((7 * c + 800) div 10))"
proof -
  have "c \<in> {0..63} \<or> c \<in> {64..127} \<or> c \<in> {128..191} \<or> c \<in> {192..255}"
    using assms by auto
  then have "c \<in> set [0..63] \<or> c \<in> set [64..127] \<or> c \<in> set [128..191]
      \<or> c \<in> set [192..255]"
    by (simp only: set_upto)
  then have "brighten (c, 0) (80, 0) = min 255 ((7 * c + 800) div 10)"
    using brighten_0_63 brighten_64_127 brighten_128_191 brighten_192_255 by blast
  moreover have "\<bar>c\<bar> < 2 ^ 53" using assms by simp
  ultimately show ?thesis by (simp add: unique_channel_small)
qed

lemma unique_colour_closed:
  assumes "0 \<le> r" "r \<le> 255" "0 \<le> g" "g \<le> 255" "0 \<le> b" "b \<le> 255"
  shows "unique_colour (r, g, b) =
           Inr (min 255 ((7 * r + 800) div 10), min 255 ((7 * g + 800) div 10),
                min 255 ((7 * b + 800) div 10))"
  using assms by (simp add: unique_colour_def unique_channel_closed)

lemma floor_affine: "\<lfloor>rat_of_int c * 7 / 10 + 80\<rfloor> = (7 * c + 800) div 10"
proof -
  have "rat_of_int c * 7 / 10 + 80 = rat_of_int (7 * c + 800) / rat_of_int 10"
    by simp
  then show ?thesis by (simp only: floor_divide_of_int_eq)
qed

lemma spec_unique_channel_closed: "spec_unique_channel c = min 255 ((14 * c + 1610) div 20)"
proof -
  have "rat_of_int c * 7 / 10 + 80 + 1 / 2 = rat_of_int (14 * c + 1610) / rat_of_int 20"
    by simp
  then have "\<lfloor>rat_of_int c * 7 / 10 + 80 + 1 / 2\<rfloor> = (14 * c + 1610) div 20"
    by (simp only: floor_divide_of_int_eq)
  then show ?thesis by (simp add: spec_unique_channel_def round_def)
qed

section \<open>The unique colour channel\<close>

text \<open>
  C2, as the specification states it: for every channel value \<open>c\<close> in \<open>[0,255]\<close> the
  unique channel is \<open>min(255, round(c*0.7+80))\<close>.  The code converts with \<^verbatim>\<open>int(...)\<close>,
  which truncates: at \<open>c = 174\<close> the float is just below \<open>201.8\<close>, the code gives 201 and
  rounding to the nearest integer gives 202.
\<close>

theorem unique_channel_round_counterexample:
  "unique_channel 174 = Inr 201 \<and> spec_unique_channel 174 = 202"
proof
  show "unique_channel 174 = Inr 201"
    using unique_channel_closed [of 174] by simp
  show "spec_unique_channel 174 = 202"
    by (simp add: spec_unique_channel_closed)
qed

text \<open>
  C2, amended: for every channel value \<open>c\<close> in \<open>[0,255]\<close> the unique channel is
  \<open>min(255, \<lfloor>c*0.7+80\<rfloor>)\<close>, the value \<open>c*0.7+80\<close> cut down to an integer, not rounded to
  the nearest one.
\<close>

theorem unique_channel_truncates:
  assumes "0 \<le> c" "c \<le> 255"
  shows "unique_channel c = Inr (min 255 \<lfloor>rat_of_int c * 7 / 10 + 80\<rfloor>)"
  using assms by (simp add: unique_channel_closed floor_affine)

theorem unique_channel_truncates_witness:
  "(0::int) \<le> 174 \<and> (174::int) \<le> 255 \<and> unique_channel 174 = Inr 201"
  using unique_channel_truncates [of 174] floor_affine [of 174] by simp



section \<open>The unique variant of a parameter record\<close>

lemma draw_creature_effective:
  "effective params unique = Inr t \<Longrightarrow>
     draw_creature petal randint params unique g = Inr (render petal randint t unique g)"
  by (simp add: draw_creature_def)

lemma draw_creature_cases:
  "draw_creature petal randint params unique g = Inr (img, g') \<Longrightarrow>
     \<exists>t. effective params unique = Inr t \<and> render petal randint t unique g = (img, g')"
  by (auto simp add: draw_creature_def split: sum.splits)

lemmas draw_eval = effective_def unique_adjust_def extract_parameters_def dict_get_def
  render_def spot_ops_def spot_op_def body_ops_def tail_ops_def horn_ops_def spine_ops_def
  spine_op_def crest_ops_def crest_op_def fin_ops_def fin_op_def eye_ops_def py_range_def
  map_rgb_def upto.simps Let_def

text \<open>
  C1: with \<open>base\<close> the features drawn for \<open>unique = False\<close> and \<open>uniq\<close> those drawn for
  \<open>unique = True\<close> from the same record, \<open>uniq\<close> has the horns, spots and fins flags of
  \<open>base\<close> inverted, the spine count \<open>(spines + 2) mod 5\<close>, and the crest flag inverted
  unless the record's \<open>allow_crest_unique\<close> is false, when it is the crest flag of \<open>base\<close>;
  and the unique rendering is the drawing of \<open>uniq\<close>.
\<close>

theorem unique_feature_inversion:
  assumes "effective params False = Inr base" and "effective params True = Inr uniq"
  shows "horns uniq = (\<not> horns base)
       \<and> spines uniq = (spines base + 2) mod 5
       \<and> spots uniq = (\<not> spots base)
       \<and> fins uniq = (\<not> fins base)
       \<and> crest uniq = (if p_allow_crest_unique params = Some False then crest base
                        else \<not> crest base)
       \<and> draw_creature petal randint params True g = Inr (render petal randint uniq True g)"
proof -
  from assms(1) have b: "base = extract_parameters params"
    by (simp add: effective_def)
  from assms(2) obtain col where
    u: "uniq = base\<lparr>colour := col, horns := \<not> horns base, spines := (spines base + 2) mod 5,
          crest := (if dict_get (p_allow_crest_unique params) True then \<not> crest base
                    else crest base),
          spots := \<not> spots base, fins := \<not> fins base\<rparr>"
    by (auto simp add: effective_def unique_adjust_def b [symmetric] split: sum.splits)
  have c: "dict_get (p_allow_crest_unique params) True = (p_allow_crest_unique params \<noteq> Some False)"
    by (cases "p_allow_crest_unique params") (auto simp add: dict_get_def)
  have flags: "horns uniq = (\<not> horns base)
       \<and> spines uniq = (spines base + 2) mod 5
       \<and> spots uniq = (\<not> spots base)
       \<and> fins uniq = (\<not> fins base)
       \<and> crest uniq = (if p_allow_crest_unique params = Some False then crest base
                        else \<not> crest base)"
    using u c by simp
  show ?thesis
    using flags draw_creature_effective [OF assms(2)] by simp
qed

theorem unique_feature_inversion_witness:
  "effective
     \<lparr>p_color = Some (208, 131, 45), p_tail = Some ''normal'', p_horns = Some False,
      p_horns_color = None, p_spines = Some 0, p_crest = Some True, p_spots = Some False,
      p_fins = Some False, p_allow_crest_unique = Some False\<rparr> False =
   Inr \<lparr>colour = (208, 131, 45), tail_shape = ''normal'', horns = False, horns_colour = None,
        spines = 0, crest = True, spots = False, fins = False\<rparr>
   \<and> effective
     \<lparr>p_color = Some (208, 131, 45), p_tail = Some ''normal'', p_horns = Some False,
      p_horns_color = None, p_spines = Some 0, p_crest = Some True, p_spots = Some False,
      p_fins = Some False, p_allow_crest_unique = Some False\<rparr> True =
   Inr \<lparr>colour = (225, 171, 111), tail_shape = ''normal'', horns = True, horns_colour = None,
        spines = 2, crest = True, spots = True, fins = True\<rparr>
   \<and> draw_creature sample_petal sample_randint
     \<lparr>p_color = Some (208, 131, 45), p_tail = Some ''normal'', p_horns = Some False,
      p_horns_color = None, p_spines = Some 0, p_crest = Some True, p_spots = Some False,
      p_fins = Some False, p_allow_crest_unique = Some False\<rparr> True 0 =
   Inr (render sample_petal sample_randint
     \<lparr>colour = (225, 171, 111), tail_shape = ''normal'', horns = True, horns_colour = None,
        spines = 2, crest = True, spots = True, fins = True\<rparr> True 0)"
  (is "?b \<and> ?u \<and> ?d")
proof -
  have b: ?b by (simp add: effective_def extract_parameters_def dict_get_def)
  have u: ?u
    by (simp add: effective_def unique_adjust_def extract_parameters_def dict_get_def
        unique_colour_closed)
  show ?thesis
    using unique_feature_inversion [OF b u, of sample_petal sample_randint 0] b u by simp
qed

section \<open>The image\<close>



text \<open>
  C10: the empty parameter record is rendered, with defaults for every field, the colour
  included: body colour \<open>(120, 200, 120)\<close>, tail \<open>normal\<close>, no horns and no horn colour, no
  spines, no crest, no spots, no fins.  Its base image is the body, the normal tail and
  the eyes; its unique image is drawn too, from the unique variant of the defaults.
\<close>

theorem empty_record_defaults:
  "extract_parameters
     \<lparr>p_color = None, p_tail = None, p_horns = None, p_horns_color = None, p_spines = None,
      p_crest = None, p_spots = None, p_fins = None, p_allow_crest_unique = None\<rparr> =
   \<lparr>colour = (120, 200, 120), tail_shape = ''normal'', horns = False, horns_colour = None,
    spines = 0, crest = False, spots = False, fins = False\<rparr>
   \<and> draw_creature petal randint
     \<lparr>p_color = None, p_tail = None, p_horns = None, p_horns_color = None, p_spines = None,
      p_crest = None, p_spots = None, p_fins = None, p_allow_crest_unique = None\<rparr> False g =
   Inr (\<lparr>img_mode = ''RGBA'', img_size = (100, 100), img_background = (0, 0, 0, 0),
         img_ops =
           [Ellipse (20, 40, 80, 90) (120, 200, 120),
            Ellipse (40, 20, 80, 60) (120, 200, 120),
            Rectangle (30, 80, 40, 95) (120, 200, 120),
            Rectangle (55, 80, 65, 95) (120, 200, 120),
            Polygon [(20, 70), (10, 65), (20, 60)] (120, 200, 120),
            Ellipse (53, 28, 59, 34) (255, 255, 255),
            Ellipse (55, 30, 57, 32) (0, 0, 0),
            Ellipse (39, 28, 45, 34) (255, 255, 255),
            Ellipse (41, 30, 43, 32) (0, 0, 0)]\<rparr>, g)
   \<and> effective
     \<lparr>p_color = None, p_tail = None, p_horns = None, p_horns_color = None, p_spines = None,
      p_crest = None, p_spots = None, p_fins = None, p_allow_crest_unique = None\<rparr> True =
   Inr \<lparr>colour = (164, 220, 164), tail_shape = ''normal'', horns = True, horns_colour = None,
        spines = 2, crest = True, spots = True, fins = True\<rparr>
   \<and> (\<exists>img g'. draw_creature petal randint
     \<lparr>p_color = None, p_tail = None, p_horns = None, p_horns_color = None, p_spines = None,
      p_crest = None, p_spots = None, p_fins = None, p_allow_crest_unique = None\<rparr> True g =
     Inr (img, g'))"
  (is "?e \<and> ?b \<and> ?u \<and> ?d")
proof -
  have e: ?e by (simp add: extract_parameters_def dict_get_def)
  have b: ?b by (simp add: draw_creature_def draw_eval)
  have u: ?u
    by (simp add: effective_def unique_adjust_def extract_parameters_def dict_get_def
        unique_colour_closed)
  have d: ?d using draw_creature_effective [OF u] by (metis surj_pair)
  show ?thesis using e b u d by blast
qed

section \<open>What is drawn\<close>

lemma render_ops:
  "render petal randint t unique g = (img, g') \<Longrightarrow>
     img_ops img = body_ops (colour t) @ tail_ops (tail_shape t) (colour t) @ horn_ops t
       @ spine_ops t @ crest_ops petal t unique @ fst (spot_ops randint t g) @ fin_ops t
       @ eye_ops"
  by (auto simp add: render_def split: prod.splits)

lemma spot_loop_positions:
  "\<exists>pts g'. length pts = length idx \<and> spot_loop randint col idx g = (map (spot_op col) pts, g')"
proof (induction idx arbitrary: g)
  case Nil
  then show ?case by simp
next
  case (Cons i idx)
  obtain sx g1 where r1: "randint g 30 70 = (sx, g1)" by (cases "randint g 30 70")
  obtain sy g2 where r2: "randint g1 50 85 = (sy, g2)" by (cases "randint g1 50 85")
  from Cons.IH [of g2] obtain pts g3 where
    l: "length pts = length idx" and s: "spot_loop randint col idx g2 = (map (spot_op col) pts, g3)"
    by blast
  have "spot_loop randint col (i # idx) g = (map (spot_op col) ((sx, sy) # pts), g3)"
    by (simp add: r1 r2 s)
  moreover have "length ((sx, sy) # pts) = length (i # idx)" using l by simp
  ultimately show ?case by blast
qed


lemma length_py_range: "length (py_range n) = nat n"
  by (simp add: py_range_def)

text \<open>
  C3, as the specification states it, has the unique rendering of \<open>verdant_leaflon\<close>, the
  first catalogue entry, drawn with body colour \<open>(133, 202, 135)\<close>.  The green channel is
  \<^verbatim>\<open>int(174 * 0.7 + 80)\<close>, which is 201.
\<close>

theorem leaflon_unique_colour_counterexample:
  "fst (hd CREATURES) = ''verdant_leaflon''
   \<and> effective (snd (hd CREATURES)) True \<noteq>
     Inr \<lparr>colour = (133, 202, 135), tail_shape = ''leaf'', horns = True, horns_colour = None,
          spines = 3, crest = True, spots = True, fins = True\<rparr>"
  by (simp add: CREATURES_def effective_def unique_adjust_def extract_parameters_def
      dict_get_def unique_colour_closed)

text \<open>
  C3, amended: \<open>verdant_leaflon\<close> has colour \<open>(76, 174, 79)\<close>, tail \<open>leaf\<close>, one spine and
  every other feature off.  Its base image is the body, the leaf tail polygon with its
  vein line, one spine triangle and the eyes: no horns, crest, spots or fins.  Its unique
  image is drawn with three spines, horns, crest, spots and fins, and with body colour
  \<open>(133, 201, 135)\<close>.
\<close>

theorem leaflon_example:
  "hd CREATURES =
     (''verdant_leaflon'',
      \<lparr>p_color = Some (76, 174, 79), p_tail = Some ''leaf'', p_horns = Some False,
       p_horns_color = None, p_spines = Some 1, p_crest = Some False, p_spots = Some False,
       p_fins = Some False, p_allow_crest_unique = None\<rparr>)
   \<and> draw_creature petal randint (snd (hd CREATURES)) False g =
     Inr (\<lparr>img_mode = ''RGBA'', img_size = (100, 100), img_background = (0, 0, 0, 0),
           img_ops =
             [Ellipse (20, 40, 80, 90) (76, 174, 79),
              Ellipse (40, 20, 80, 60) (76, 174, 79),
              Rectangle (30, 80, 40, 95) (76, 174, 79),
              Rectangle (55, 80, 65, 95) (76, 174, 79),
              Polygon [(20, 70), (10, 50), (20, 55), (15, 65)] (76, 174, 79),
              Line [(15, 55), (15, 65)] (0, 100, 0) 1,
              Polygon [(30, 38), (35, 28), (40, 38)] (46, 144, 49),
              Ellipse (53, 28, 59, 34) (255, 255, 255),
              Ellipse (55, 30, 57, 32) (0, 0, 0),
              Ellipse (39, 28, 45, 34) (255, 255, 255),
              Ellipse (41, 30, 43, 32) (0, 0, 0)]\<rparr>, g)
   \<and> effective (snd (hd CREATURES)) True =
     Inr \<lparr>colour = (133, 201, 135), tail_shape = ''leaf'', horns = True, horns_colour = None,
          spines = 3, crest = True, spots = True, fins = True\<rparr>
   \<and> draw_creature petal randint (snd (hd CREATURES)) True g =
     Inr (render petal randint
            \<lparr>colour = (133, 201, 135), tail_shape = ''leaf'', horns = True,
             horns_colour = None, spines = 3, crest = True, spots = True, fins = True\<rparr>
            True g)"
  (is "?h \<and> ?b \<and> ?u \<and> ?d")
proof -
  have h: ?h by (simp add: CREATURES_def)
  have b: ?b by (simp add: h draw_creature_def draw_eval)
  have u: ?u
    by (simp add: h effective_def unique_adjust_def extract_parameters_def dict_get_def
        unique_colour_closed)
  have d: ?d by (rule draw_creature_effective [OF u])
  show ?thesis using h b u d by blast
qed



text \<open>
  C6: every image has exactly one tail, drawn right after the body and before the other
  features, none of which looks at the tail value.  The tail \<open>leaf\<close> is a four-point polygon
  and a vein line, \<open>long\<close> a three-point polygon, \<open>fin\<close> a three-point polygon and a vein
  line, and every other value, the default \<open>normal\<close> and any unknown string alike, the small
  three-point polygon; one case excludes the others.
\<close>

theorem exactly_one_tail:
  assumes "draw_creature petal randint params unique g = Inr (img, g')"
  shows "\<exists>t rest. effective params unique = Inr t
     \<and> tail_shape t = dict_get (p_tail params) ''normal''
     \<and> img_ops img = body_ops (colour t) @ tail_ops (tail_shape t) (colour t) @ rest
     \<and> rest = horn_ops (t\<lparr>tail_shape := []\<rparr>) @ spine_ops (t\<lparr>tail_shape := []\<rparr>)
         @ crest_ops petal (t\<lparr>tail_shape := []\<rparr>) unique
         @ fst (spot_ops randint (t\<lparr>tail_shape := []\<rparr>) g)
         @ fin_ops (t\<lparr>tail_shape := []\<rparr>) @ eye_ops
     \<and> tail_ops (tail_shape t) (colour t) =
         (if tail_shape t = ''leaf'' then
            [Polygon [(20, 70), (10, 50), (20, 55), (15, 65)] (colour t),
             Line [(15, 55), (15, 65)] (0, 100, 0) 1]
          else if tail_shape t = ''long'' then
            [Polygon [(20, 75), (5, 65), (20, 55)] (colour t)]
          else if tail_shape t = ''fin'' then
            [Polygon [(20, 70), (5, 60), (20, 50)] (colour t),
             Line [(12, 58), (12, 65)] (0, 150, 200) 1]
          else
            [Polygon [(20, 70), (10, 65), (20, 60)] (colour t)])
     \<and> length (filter is_polygon (tail_ops (tail_shape t) (colour t))) = 1"
proof -
  from draw_creature_cases [OF assms] obtain t where
    e: "effective params unique = Inr t" and r: "render petal randint t unique g = (img, g')"
    by auto
  have s: "tail_shape t = dict_get (p_tail params) ''normal''"
    using e
    by (auto simp add: effective_def unique_adjust_def extract_parameters_def
        split: if_splits sum.splits)
  have i: "horn_ops (t\<lparr>tail_shape := []\<rparr>) = horn_ops t"
    "spine_ops (t\<lparr>tail_shape := []\<rparr>) = spine_ops t"
    "crest_ops petal (t\<lparr>tail_shape := []\<rparr>) unique = crest_ops petal t unique"
    "spot_ops randint (t\<lparr>tail_shape := []\<rparr>) g = spot_ops randint t g"
    "fin_ops (t\<lparr>tail_shape := []\<rparr>) = fin_ops t"
    by (simp_all add: horn_ops_def spine_ops_def crest_ops_def spot_ops_def fin_ops_def
        split: option.splits)
  have one: "length (filter is_polygon (tail_ops (tail_shape t) (colour t))) = 1"
    by (simp add: tail_ops_def)
  show ?thesis
    using e s render_ops [OF r] one by (simp add: i tail_ops_def)
qed

theorem exactly_one_tail_witness:
  "\<exists>img g'.
     draw_creature sample_petal sample_randint
       \<lparr>p_color = Some (60, 60, 70), p_tail = Some ''stubby'', p_horns = Some False,
        p_horns_color = None, p_spines = Some 2, p_crest = Some False, p_spots = Some False,
        p_fins = Some False, p_allow_crest_unique = None\<rparr> False 0 = Inr (img, g')
     \<and> img_ops img =
         body_ops (60, 60, 70) @ [Polygon [(20, 70), (10, 65), (20, 60)] (60, 60, 70)]
         @ [Polygon [(30, 38), (35, 28), (40, 38)] (30, 30, 40),
            Polygon [(40, 36), (45, 26), (50, 36)] (30, 30, 40)]
         @ eye_ops"
proof -
  let ?p = "\<lparr>p_color = Some (60, 60, 70), p_tail = Some ''stubby'', p_horns = Some False,
        p_horns_color = None, p_spines = Some 2, p_crest = Some False, p_spots = Some False,
        p_fins = Some False, p_allow_crest_unique = None\<rparr>"
  let ?t = "\<lparr>colour = (60, 60, 70), tail_shape = ''stubby'', horns = False,
        horns_colour = None, spines = 2, crest = False, spots = False, fins = False\<rparr>"
  have e: "effective ?p False = Inr ?t"
    by (simp add: effective_def extract_parameters_def dict_get_def)
  obtain img g' where d: "draw_creature sample_petal sample_randint ?p False 0 = Inr (img, g')"
    using draw_creature_effective [OF e] by (metis surj_pair)
  from exactly_one_tail [OF d] e have
    "img_ops img = body_ops (60, 60, 70) @ [Polygon [(20, 70), (10, 65), (20, 60)] (60, 60, 70)]
         @ [Polygon [(30, 38), (35, 28), (40, 38)] (30, 30, 40),
            Polygon [(40, 36), (45, 26), (50, 36)] (30, 30, 40)]
         @ eye_ops"
    by (auto simp add: horn_ops_def spine_ops_def spine_op_def crest_ops_def spot_ops_def
        fin_ops_def py_range_def map_rgb_def upto.simps Let_def)
  then show ?thesis using d by blast
qed

section \<open>Randomness\<close>

text \<open>
  C4: take a parameter record and a variant flag, and the features \<open>t\<close> the drawing starts
  with.  When the spots flag of \<open>t\<close> is false, every call returns the same image,
  whatever the random generator and its state, and leaves the generator state as it was.
  When it is true, two calls can differ only in the positions of the six spots: the
  image is always the same operations before, six spot ellipses of the one spot colour
  at six drawn positions, and the same operations after.
\<close>

theorem randomness_only_in_spots:
  assumes "effective params unique = Inr t"
  shows "(\<not> spots t \<longrightarrow>
            (\<exists>img. \<forall>randint g. draw_creature petal randint params unique g = Inr (img, g)))
       \<and> (spots t \<longrightarrow>
            (\<exists>before after. \<forall>randint g. \<exists>pts g'. length pts = 6
               \<and> draw_creature petal randint params unique g =
                   Inr (\<lparr>img_mode = ''RGBA'', img_size = (100, 100),
                         img_background = (0, 0, 0, 0),
                         img_ops = before @ map (spot_op (colour t)) pts @ after\<rparr>, g')))"
proof (intro conjI impI)
  assume n: "\<not> spots t"
  let ?img = "\<lparr>img_mode = ''RGBA'', img_size = (100, 100), img_background = (0, 0, 0, 0),
     img_ops = body_ops (colour t) @ tail_ops (tail_shape t) (colour t) @ horn_ops t
       @ spine_ops t @ crest_ops petal t unique @ fin_ops t @ eye_ops\<rparr>"
  have "draw_creature petal randint params unique g = Inr (?img, g)" for randint and g :: 'a
    using n by (simp add: draw_creature_effective [OF assms] render_def spot_ops_def)
  then show "\<exists>img. \<forall>randint (g::'a). draw_creature petal randint params unique g = Inr (img, g)"
    by blast
next
  assume y: "spots t"
  let ?before = "body_ops (colour t) @ tail_ops (tail_shape t) (colour t) @ horn_ops t
       @ spine_ops t @ crest_ops petal t unique"
  let ?after = "fin_ops t @ eye_ops"
  have "\<exists>pts g'. length pts = 6
      \<and> draw_creature petal randint params unique g =
          Inr (\<lparr>img_mode = ''RGBA'', img_size = (100, 100), img_background = (0, 0, 0, 0),
                img_ops = ?before @ map (spot_op (colour t)) pts @ ?after\<rparr>, g')"
    for randint and g :: 'b
  proof -
    obtain pts g3 where l: "length pts = length (py_range 6)"
      and s: "spot_loop randint (colour t) (py_range 6) g = (map (spot_op (colour t)) pts, g3)"
      using spot_loop_positions [of "py_range 6" randint "colour t" g] by blast
    have "draw_creature petal randint params unique g =
          Inr (\<lparr>img_mode = ''RGBA'', img_size = (100, 100), img_background = (0, 0, 0, 0),
                img_ops = ?before @ map (spot_op (colour t)) pts @ ?after\<rparr>, g3)"
      using y s by (simp add: draw_creature_effective [OF assms] render_def spot_ops_def)
    moreover have "length pts = 6" using l by (simp add: length_py_range)
    ultimately show ?thesis by blast
  qed
  then show "\<exists>before after. \<forall>randint (g::'b). \<exists>pts g'. length pts = 6
               \<and> draw_creature petal randint params unique g =
                   Inr (\<lparr>img_mode = ''RGBA'', img_size = (100, 100),
                         img_background = (0, 0, 0, 0),
                         img_ops = before @ map (spot_op (colour t)) pts @ after\<rparr>, g')"
    by blast
qed

theorem randomness_only_in_spots_witness:
  "(\<exists>img. \<forall>randint (g::nat).
      draw_creature sample_petal randint
        \<lparr>p_color = Some (63, 97, 56), p_tail = Some ''long'', p_horns = Some False,
         p_horns_color = None, p_spines = Some 0, p_crest = Some False, p_spots = Some True,
         p_fins = Some False, p_allow_crest_unique = None\<rparr> True g = Inr (img, g))
   \<and> (\<exists>before after. \<forall>randint (g::nat). \<exists>pts g'. length pts = 6
        \<and> draw_creature sample_petal randint
            \<lparr>p_color = Some (63, 97, 56), p_tail = Some ''long'', p_horns = Some False,
             p_horns_color = None, p_spines = Some 0, p_crest = Some False,
             p_spots = Some True, p_fins = Some False, p_allow_crest_unique = None\<rparr> False g =
            Inr (\<lparr>img_mode = ''RGBA'', img_size = (100, 100), img_background = (0, 0, 0, 0),
                  img_ops = before @ map (spot_op (63, 97, 56)) pts @ after\<rparr>, g'))"
proof -
  let ?p = "\<lparr>p_color = Some (63, 97, 56), p_tail = Some ''long'', p_horns = Some False,
         p_horns_color = None, p_spines = Some 0, p_crest = Some False, p_spots = Some True,
         p_fins = Some False, p_allow_crest_unique = None\<rparr>"
  have b: "effective ?p False =
      Inr \<lparr>colour = (63, 97, 56), tail_shape = ''long'', horns = False, horns_colour = None,
           spines = 0, crest = False, spots = True, fins = False\<rparr>"
    by (simp add: effective_def extract_parameters_def dict_get_def)
  have u: "effective ?p True =
      Inr \<lparr>colour = (124, 147, 119), tail_shape = ''long'', horns = True, horns_colour = None,
           spines = 2, crest = True, spots = False, fins = True\<rparr>"
    by (simp add: effective_def unique_adjust_def extract_parameters_def dict_get_def
        unique_colour_closed)
  show ?thesis
    using randomness_only_in_spots [OF b, of sample_petal]
      randomness_only_in_spots [OF u, of sample_petal]
    by simp
qed

section \<open>The catalogue run\<close>

lemma CREATURES_length: "length CREATURES = 50"
  by (simp add: CREATURES_def)

lemma CREATURES_names_distinct: "distinct (map fst CREATURES)"
  by (simp add: CREATURES_def)

lemma CREATURES_names_plain: "list_all (\<lambda>(name, params). name \<noteq> [] \<and> hd name \<noteq> CHR ''/'') CREATURES"
  by (simp add: CREATURES_def)

lemma CREATURES_colours:
  "list_all (\<lambda>(name, params). rgb_in_range (colour (extract_parameters params))) CREATURES"
  by (simp add: CREATURES_def rgb_in_range_def extract_parameters_def dict_get_def)

text \<open>A colour in range is rendered in both variants.\<close>

lemma effective_total:
  assumes "rgb_in_range (colour (extract_parameters params))"
  shows "\<exists>t. effective params unique = Inr t"
proof -
  obtain r gr b where c: "colour (extract_parameters params) = (r, gr, b)"
    by (cases "colour (extract_parameters params)")
  with assms have "0 \<le> r" "r \<le> 255" "0 \<le> gr" "gr \<le> 255" "0 \<le> b" "b \<le> 255"
    by (simp_all add: rgb_in_range_def)
  then show ?thesis
    by (simp add: effective_def unique_adjust_def c unique_colour_closed)
qed

lemma draw_creature_total:
  assumes "rgb_in_range (colour (extract_parameters params))"
  shows "\<exists>img g'. draw_creature petal randint params unique g = Inr (img, g')"
proof -
  from effective_total [OF assms] obtain t where "effective params unique = Inr t" ..
  from draw_creature_effective [OF this] show ?thesis by (metis surj_pair)
qed

text \<open>A directory made by \<open>path_join\<close> from a plain last component has no trailing slash.\<close>

lemma path_join_plain:
  assumes "b \<noteq> []" "hd b \<noteq> CHR ''/''"
  shows "path_join a b = (if a = [] \<or> last a = CHR ''/'' then a @ b else a @ ''/'' @ b)"
  using assms by (simp add: path_join_def)

lemma output_dirs_plain:
  "BASE_OUTPUT base_dir \<noteq> []" "last (BASE_OUTPUT base_dir) \<noteq> CHR ''/''"
  "UNIQUE_OUTPUT base_dir \<noteq> []" "last (UNIQUE_OUTPUT base_dir) \<noteq> CHR ''/''"
  by (simp_all add: BASE_OUTPUT_def UNIQUE_OUTPUT_def path_join_def)

lemma base_path_plain:
  assumes "name \<noteq> []" "hd name \<noteq> CHR ''/''"
  shows "base_path base_dir name = BASE_OUTPUT base_dir @ ''/'' @ name @ ''_base.png''"
proof -
  have "name @ ''_base.png'' \<noteq> []" "hd (name @ ''_base.png'') \<noteq> CHR ''/''"
    using assms by simp_all
  then show ?thesis
    unfolding base_path_def by (simp add: path_join_plain output_dirs_plain)
qed

lemma unique_path_plain:
  assumes "name \<noteq> []" "hd name \<noteq> CHR ''/''"
  shows "unique_path base_dir name = UNIQUE_OUTPUT base_dir @ ''/'' @ name @ ''_unique.png''"
proof -
  have "name @ ''_unique.png'' \<noteq> []" "hd (name @ ''_unique.png'') \<noteq> CHR ''/''"
    using assms by simp_all
  then show ?thesis
    unfolding unique_path_def by (simp add: path_join_plain output_dirs_plain)
qed

text \<open>No base file name is a unique file name: the endings differ.\<close>

lemma endings_differ: "a @ ''_base.png'' \<noteq> b @ ''_unique.png''"
proof
  assume "a @ ''_base.png'' = b @ ''_unique.png''"
  then have "rev (a @ ''_base.png'') = rev (b @ ''_unique.png'')" by simp
  then show False by simp
qed

text \<open>
  The loop over any list of entries whose colours are in range and whose paths are all
  different: it ends without an error, touches no other path, and leaves at the two
  paths of each entry the base image and the unique image of that entry, the second
  drawn in the generator state the first one left.
\<close>

lemma generate_loop_run:
  assumes "list_all (\<lambda>(name, params). rgb_in_range (colour (extract_parameters params))) cs"
    and "distinct (map (\<lambda>c. base_path bd (fst c)) cs @ map (\<lambda>c. unique_path bd (fst c)) cs)"
  shows "\<exists>w'. generate_loop petal randint bd cs w = Inr w'
     \<and> (\<forall>path. path \<notin> (\<lambda>c. base_path bd (fst c)) ` set cs \<union> (\<lambda>c. unique_path bd (fst c)) ` set cs
          \<longrightarrow> files w' path = files w path)
     \<and> (\<forall>(name, params) \<in> set cs. \<exists>b u g1 g2 g3.
          draw_creature petal randint params False g1 = Inr (b, g2)
          \<and> draw_creature petal randint params True g2 = Inr (u, g3)
          \<and> files w' (base_path bd name) = Some b
          \<and> files w' (unique_path bd name) = Some u)"
  using assms
proof (induction cs arbitrary: w)
  case Nil
  then show ?case by simp
next
  case (Cons c cs)
  obtain name params where c: "c = (name, params)" by (cases c)
  let ?bp = "base_path bd name" and ?up = "unique_path bd name"
  from Cons.prems(1) have ok: "rgb_in_range (colour (extract_parameters params))"
    and oks: "list_all (\<lambda>(name, params). rgb_in_range (colour (extract_parameters params))) cs"
    by (simp_all add: c)
  from Cons.prems(2) have ds: "distinct (map (\<lambda>c. base_path bd (fst c)) cs @ map (\<lambda>c. unique_path bd (fst c)) cs)"
    and nb: "?bp \<notin> (\<lambda>c. base_path bd (fst c)) ` set cs \<union> (\<lambda>c. unique_path bd (fst c)) ` set cs"
    and nu: "?up \<notin> (\<lambda>c. base_path bd (fst c)) ` set cs \<union> (\<lambda>c. unique_path bd (fst c)) ` set cs"
    and ne: "?bp \<noteq> ?up"
    by (auto simp add: c)
  obtain b g2 where db: "draw_creature petal randint params False (rng w) = Inr (b, g2)"
    using draw_creature_total
      [OF ok, where petal = petal and randint = randint and unique = False and g = "rng w"]
    by blast
  obtain u g3 where du: "draw_creature petal randint params True g2 = Inr (u, g3)"
    using draw_creature_total
      [OF ok, where petal = petal and randint = randint and unique = True and g = g2]
    by blast
  let ?w1 = "w\<lparr>files := (files w)(?bp \<mapsto> b, ?up \<mapsto> u),
      stdout := stdout w @ [''Generated '' @ ?bp @ '' and unique variant''], rng := g3\<rparr>"
  have step: "generate_loop petal randint bd (c # cs) w = generate_loop petal randint bd cs ?w1"
    by (simp add: c db du)
  from Cons.IH [OF oks ds, of ?w1] obtain w' where
    r: "generate_loop petal randint bd cs ?w1 = Inr w'"
    and same: "\<forall>path. path \<notin> (\<lambda>c. base_path bd (fst c)) ` set cs \<union> (\<lambda>c. unique_path bd (fst c)) ` set cs
          \<longrightarrow> files w' path = files ?w1 path"
    and each: "\<forall>(name, params) \<in> set cs. \<exists>b u g1 g2 g3.
          draw_creature petal randint params False g1 = Inr (b, g2)
          \<and> draw_creature petal randint params True g2 = Inr (u, g3)
          \<and> files w' (base_path bd name) = Some b
          \<and> files w' (unique_path bd name) = Some u"
    by blast
  have fb: "files w' ?bp = Some b" using same nb ne by simp
  have fu: "files w' ?up = Some u" using same nu by simp
  have head: "\<exists>b u g1 g2 g3.
          draw_creature petal randint params False g1 = Inr (b, g2)
          \<and> draw_creature petal randint params True g2 = Inr (u, g3)
          \<and> files w' (base_path bd name) = Some b
          \<and> files w' (unique_path bd name) = Some u"
    using db du fb fu by blast
  have same': "\<forall>path. path \<notin> (\<lambda>c. base_path bd (fst c)) ` set (c # cs)
          \<union> (\<lambda>c. unique_path bd (fst c)) ` set (c # cs) \<longrightarrow> files w' path = files w path"
    using same by (simp add: c)
  have each': "\<forall>(name, params) \<in> set (c # cs). \<exists>b u g1 g2 g3.
          draw_creature petal randint params False g1 = Inr (b, g2)
          \<and> draw_creature petal randint params True g2 = Inr (u, g3)
          \<and> files w' (base_path bd name) = Some b
          \<and> files w' (unique_path bd name) = Some u"
    using head each by (simp add: c)
  show ?case using step r same' each' by simp
qed

lemma paths_distinct:
  assumes "distinct (map fst cs)"
    and "list_all (\<lambda>(name, params). name \<noteq> [] \<and> hd name \<noteq> CHR ''/'') cs"
  shows "distinct (map (\<lambda>c. base_path bd (fst c)) cs @ map (\<lambda>c. unique_path bd (fst c)) cs)"
proof -
  have plain: "fst c \<noteq> [] \<and> hd (fst c) \<noteq> CHR ''/''" if "c \<in> set cs" for c
    using assms(2) that by (auto simp add: list_all_iff)
  have bp: "base_path bd (fst c) = BASE_OUTPUT bd @ ''/'' @ fst c @ ''_base.png''"
    if "c \<in> set cs" for c
    using plain [OF that] by (simp add: base_path_plain)
  have up: "unique_path bd (fst c) = UNIQUE_OUTPUT bd @ ''/'' @ fst c @ ''_unique.png''"
    if "c \<in> set cs" for c
    using plain [OF that] by (simp add: unique_path_plain)
  have d: "distinct cs \<and> inj_on fst (set cs)"
    using assms(1) by (simp add: distinct_map)
  have ib: "inj_on (\<lambda>c. base_path bd (fst c)) (set cs)"
  proof (rule inj_onI)
    fix x y
    assume "x \<in> set cs" "y \<in> set cs" "base_path bd (fst x) = base_path bd (fst y)"
    then have "fst x = fst y" by (simp add: bp)
    with d \<open>x \<in> set cs\<close> \<open>y \<in> set cs\<close> show "x = y" by (auto dest: inj_onD)
  qed
  have iu: "inj_on (\<lambda>c. unique_path bd (fst c)) (set cs)"
  proof (rule inj_onI)
    fix x y
    assume "x \<in> set cs" "y \<in> set cs" "unique_path bd (fst x) = unique_path bd (fst y)"
    then have "fst x = fst y" by (simp add: up)
    with d \<open>x \<in> set cs\<close> \<open>y \<in> set cs\<close> show "x = y" by (auto dest: inj_onD)
  qed
  have disj: "base_path bd (fst x) \<noteq> unique_path bd (fst y)"
    if "x \<in> set cs" "y \<in> set cs" for x y
  proof
    assume "base_path bd (fst x) = unique_path bd (fst y)"
    then have "(BASE_OUTPUT bd @ ''/'' @ fst x) @ ''_base.png''
        = (UNIQUE_OUTPUT bd @ ''/'' @ fst y) @ ''_unique.png''"
      using that by (simp add: bp up)
    then show False by (rule endings_differ [THEN notE])
  qed
  show ?thesis
    using d ib iu disj by (auto simp add: distinct_map)
qed

text \<open>
  C9: the catalogue has fifty entries.  A run over it ends without an error; for every
  entry it has rendered the base image and then the unique image and left them in the
  files \<open><name>_base.png\<close> of the base directory and \<open><name>_unique.png\<close> of the unique
  directory, whatever those paths held before; it has touched no other path.  The fifty
  base paths and the fifty unique paths are a hundred different paths.
\<close>

theorem catalogue_run:
  "length CREATURES = 50
   \<and> (\<exists>w'. generate_all petal randint base_dir w = Inr w'
        \<and> (\<forall>(name, params) \<in> set CREATURES. \<exists>b u g1 g2 g3.
              draw_creature petal randint params False g1 = Inr (b, g2)
            \<and> draw_creature petal randint params True g2 = Inr (u, g3)
            \<and> files w' (BASE_OUTPUT base_dir @ ''/'' @ name @ ''_base.png'') = Some b
            \<and> files w' (UNIQUE_OUTPUT base_dir @ ''/'' @ name @ ''_unique.png'') = Some u)
        \<and> (\<forall>path.
              path \<notin> (\<lambda>(name, params). BASE_OUTPUT base_dir @ ''/'' @ name @ ''_base.png'')
                       ` set CREATURES
                   \<union> (\<lambda>(name, params). UNIQUE_OUTPUT base_dir @ ''/'' @ name @ ''_unique.png'')
                       ` set CREATURES
              \<longrightarrow> files w' path = files w path))
   \<and> card ((\<lambda>(name, params). BASE_OUTPUT base_dir @ ''/'' @ name @ ''_base.png'')
             ` set CREATURES) = 50
   \<and> card ((\<lambda>(name, params). UNIQUE_OUTPUT base_dir @ ''/'' @ name @ ''_unique.png'')
             ` set CREATURES) = 50
   \<and> card ((\<lambda>(name, params). BASE_OUTPUT base_dir @ ''/'' @ name @ ''_base.png'')
             ` set CREATURES
           \<union> (\<lambda>(name, params). UNIQUE_OUTPUT base_dir @ ''/'' @ name @ ''_unique.png'')
             ` set CREATURES) = 100"
  (is "_ \<and> (\<exists>w'. _ \<and> ?each w' \<and> ?same w') \<and> card ?WB = 50 \<and> card ?WU = 50 \<and> _")
proof -
  have plain: "name \<noteq> [] \<and> hd name \<noteq> CHR ''/''" if "(name, params) \<in> set CREATURES"
    for name params
    using CREATURES_names_plain that by (auto simp add: list_all_iff)
  have bp: "base_path base_dir (fst c) = (case c of (name, params) \<Rightarrow>
      BASE_OUTPUT base_dir @ ''/'' @ name @ ''_base.png'')" if "c \<in> set CREATURES" for c
    using plain [of "fst c" "snd c"] that by (simp add: base_path_plain split: prod.splits)
  have up: "unique_path base_dir (fst c) = (case c of (name, params) \<Rightarrow>
      UNIQUE_OUTPUT base_dir @ ''/'' @ name @ ''_unique.png'')" if "c \<in> set CREATURES" for c
    using plain [of "fst c" "snd c"] that by (simp add: unique_path_plain split: prod.splits)
  have wb: "(\<lambda>c. base_path base_dir (fst c)) ` set CREATURES = ?WB"
    by (rule image_cong) (simp_all add: bp)
  have wu: "(\<lambda>c. unique_path base_dir (fst c)) ` set CREATURES = ?WU"
    by (rule image_cong) (simp_all add: up)
  have dist: "distinct (map (\<lambda>c. base_path base_dir (fst c)) CREATURES
      @ map (\<lambda>c. unique_path base_dir (fst c)) CREATURES)"
    by (rule paths_distinct [OF CREATURES_names_distinct CREATURES_names_plain])
  from generate_loop_run [OF CREATURES_colours dist, of petal randint w]
  obtain w' where r: "generate_all petal randint base_dir w = Inr w'"
    and same: "\<forall>path. path \<notin> (\<lambda>c. base_path base_dir (fst c)) ` set CREATURES
          \<union> (\<lambda>c. unique_path base_dir (fst c)) ` set CREATURES
          \<longrightarrow> files w' path = files w path"
    and each: "\<forall>(name, params) \<in> set CREATURES. \<exists>b u g1 g2 g3.
          draw_creature petal randint params False g1 = Inr (b, g2)
          \<and> draw_creature petal randint params True g2 = Inr (u, g3)
          \<and> files w' (base_path base_dir name) = Some b
          \<and> files w' (unique_path base_dir name) = Some u"
    unfolding generate_all_def by blast
  have each': "?each w'"
  proof (clarify)
    fix name params
    assume m: "(name, params) \<in> set CREATURES"
    with each have "\<exists>b u g1 g2 g3.
          draw_creature petal randint params False g1 = Inr (b, g2)
          \<and> draw_creature petal randint params True g2 = Inr (u, g3)
          \<and> files w' (base_path base_dir name) = Some b
          \<and> files w' (unique_path base_dir name) = Some u"
      by blast
    then show "\<exists>b u g1 g2 g3.
          draw_creature petal randint params False g1 = Inr (b, g2)
          \<and> draw_creature petal randint params True g2 = Inr (u, g3)
          \<and> files w' (BASE_OUTPUT base_dir @ ''/'' @ name @ ''_base.png'') = Some b
          \<and> files w' (UNIQUE_OUTPUT base_dir @ ''/'' @ name @ ''_unique.png'') = Some u"
      using bp [OF m] up [OF m] by simp
  qed
  have same': "?same w'" using same unfolding wb wu .
  have db: "distinct (map (\<lambda>c. base_path base_dir (fst c)) CREATURES)"
    and du: "distinct (map (\<lambda>c. unique_path base_dir (fst c)) CREATURES)"
    using dist by simp_all
  have "card (set (map (\<lambda>c. base_path base_dir (fst c)) CREATURES)) = 50"
    using distinct_card [OF db] by (simp add: CREATURES_length)
  then have cb: "card ?WB = 50" using wb by simp
  have "card (set (map (\<lambda>c. unique_path base_dir (fst c)) CREATURES)) = 50"
    using distinct_card [OF du] by (simp add: CREATURES_length)
  then have cu: "card ?WU = 50" using wu by simp
  have "card (set (map (\<lambda>c. base_path base_dir (fst c)) CREATURES
      @ map (\<lambda>c. unique_path base_dir (fst c)) CREATURES)) = 100"
    using distinct_card [OF dist] by (simp add: CREATURES_length)
  then have call: "card (?WB \<union> ?WU) = 100" using wb wu by simp
  show ?thesis using CREATURES_length r each' same' cb cu call by blast
qed

theorem catalogue_run_witness:
  "\<exists>w'. generate_all sample_petal sample_randint ''/repo''
            \<lparr>files = Map.empty, stdout = [], rng = 0\<rparr> = Inr w'
     \<and> (\<exists>b u g1 g2 g3.
           draw_creature sample_petal sample_randint (snd (hd CREATURES)) False g1 = Inr (b, g2)
         \<and> draw_creature sample_petal sample_randint (snd (hd CREATURES)) True g2 = Inr (u, g3)
         \<and> files w' ''/repo/assets/creatures/base/verdant_leaflon_base.png'' = Some b
         \<and> files w' ''/repo/assets/creatures/unique/verdant_leaflon_unique.png'' = Some u)
     \<and> files w' ''/repo/generate_creatures.py'' = None"
proof -
  let ?w = "\<lparr>files = Map.empty, stdout = [], rng = 0::nat\<rparr>"
  let ?WB = "(\<lambda>(name, params). BASE_OUTPUT ''/repo'' @ ''/'' @ name @ ''_base.png'')
             ` set CREATURES"
  let ?WU = "(\<lambda>(name, params). UNIQUE_OUTPUT ''/repo'' @ ''/'' @ name @ ''_unique.png'')
             ` set CREATURES"
  from catalogue_run [of sample_petal sample_randint "''/repo''" ?w]
  obtain w' where r: "generate_all sample_petal sample_randint ''/repo'' ?w = Inr w'"
    and each: "\<forall>(name, params) \<in> set CREATURES. \<exists>b u g1 g2 g3.
              draw_creature sample_petal sample_randint params False g1 = Inr (b, g2)
            \<and> draw_creature sample_petal sample_randint params True g2 = Inr (u, g3)
            \<and> files w' (BASE_OUTPUT ''/repo'' @ ''/'' @ name @ ''_base.png'') = Some b
            \<and> files w' (UNIQUE_OUTPUT ''/repo'' @ ''/'' @ name @ ''_unique.png'') = Some u"
    and same: "\<forall>path. path \<notin> ?WB \<union> ?WU \<longrightarrow> files w' path = files ?w path"
    by blast
  have dirs: "BASE_OUTPUT ''/repo'' = ''/repo/assets/creatures/base''"
    "UNIQUE_OUTPUT ''/repo'' = ''/repo/assets/creatures/unique''"
    by (simp_all add: BASE_OUTPUT_def UNIQUE_OUTPUT_def ASSETS_DIR_def path_join_def)
  have "hd CREATURES \<in> set CREATURES" by (simp add: CREATURES_def)
  moreover have "fst (hd CREATURES) = ''verdant_leaflon''" by (simp add: CREATURES_def)
  ultimately have "(''verdant_leaflon'', snd (hd CREATURES)) \<in> set CREATURES"
    by (metis prod.collapse)
  with each have first: "\<exists>b u g1 g2 g3.
           draw_creature sample_petal sample_randint (snd (hd CREATURES)) False g1 = Inr (b, g2)
         \<and> draw_creature sample_petal sample_randint (snd (hd CREATURES)) True g2 = Inr (u, g3)
         \<and> files w' ''/repo/assets/creatures/base/verdant_leaflon_base.png'' = Some b
         \<and> files w' ''/repo/assets/creatures/unique/verdant_leaflon_unique.png'' = Some u"
    by (fastforce simp add: dirs)
  have "''/repo/generate_creatures.py'' \<notin> ?WB \<union> ?WU"
    by (auto simp add: dirs)
  with same have other: "files w' ''/repo/generate_creatures.py'' = None" by simp
  show ?thesis using r first other by blast
qed

end
